theory Spec2Isabelle
  imports Main "HOL-Library.Sublist"
begin

section \<open>Data model of \<^verbatim>\<open>src/index.ts\<close>\<close>

text \<open>
  Strings are lists of code units; \<open>length\<close> is JavaScript's \<^verbatim>\<open>.length\<close>.
  Library paths, resource URIs and workspace-folder URIs are strings.
\<close>

datatype Scope = scope_local | scope_global

text \<open>\<^verbatim>\<open>enum ConfirmExecutionResult\<close> (lines 291-296).\<close>

datatype ConfirmExecutionResult = denied | confirmationPending | disabled | approved

text \<open>
  \<^verbatim>\<open>enum Status\<close> (lines 216-223). The constructors carry a prefix because
  \<^verbatim>\<open>confirmationPending\<close> is also a member of \<^verbatim>\<open>ConfirmExecutionResult\<close>.
\<close>

datatype Status =
    Status_ok | Status_warn | Status_error
  | Status_confirmationPending | Status_executionDisabled | Status_executionDenied

text \<open>\<^verbatim>\<open>enum ConfirmationSelection\<close> (lines 189-194).\<close>

datatype ConfirmationSelection = deny | disable | allow | alwaysAllow

text \<open>\<^verbatim>\<open>ConfirmExecutionResult.toStatus\<close> (lines 298-311).\<close>

fun toStatus :: "ConfirmExecutionResult \<Rightarrow> Status" where
  "toStatus denied = Status_executionDenied"
| "toStatus confirmationPending = Status_confirmationPending"
| "toStatus disabled = Status_executionDisabled"
| "toStatus approved = Status_ok"

text \<open>\<^verbatim>\<open>interface ExecutionParams\<close> and \<^verbatim>\<open>ConfirmExecutionParams extends ExecutionParams\<close>
  (lines 282-289).\<close>

record ExecutionParams =
  scope :: Scope
  libraryPath :: string

record ConfirmExecutionParams = ExecutionParams +
  uri :: string

text \<open>
  A \<^verbatim>\<open>DiagnosticCollection\<close> of the host holds, per resource URI, the messages shown
  there; \<^verbatim>\<open>clear()\<close> empties it. A \<^verbatim>\<open>Disposable\<close> is live until \<^verbatim>\<open>dispose()\<close>
  is called on it.
\<close>

type_synonym DiagnosticCollection = "(string \<times> string list) list"

datatype Disposable = Disposable (disposed: bool)

text \<open>\<^verbatim>\<open>type ExecutionInfo\<close> (lines 430-436).\<close>

record ExecutionInfo =
  params :: ExecutionParams
  result :: ConfirmExecutionResult
  editorErrorUri :: "string option"
  diagnostics :: DiagnosticCollection
  codeActionProvider :: "Disposable option"

text \<open>
  \<^verbatim>\<open>type ResourceInfo\<close> (lines 423-426). An \<^verbatim>\<open>ExecutionInfo\<close> object is shared by
  reference between \<^verbatim>\<open>libraryPath2ExecutionInfo\<close>, the per-folder lists and the resource
  infos. Every such object is entered into \<^verbatim>\<open>libraryPath2ExecutionInfo\<close> under its library
  path when it is created (lines 451 and 1425), entries of that map are never replaced or
  removed one by one, and the three maps are only emptied together (lines 612-614). A
  reference to an \<^verbatim>\<open>ExecutionInfo\<close> is therefore modelled by the library path under which
  the object is stored, and in-place mutation of the object by an update of that entry.
\<close>

record ResourceInfo =
  status :: Status
  executionInfo :: "string option"

text \<open>
  The module-level variables (lines 414-439), the two values kept in
  \<^verbatim>\<open>context.globalState\<close>, and two counters for the calls that leave the module:
  \<open>statusChanged\<close> counts the calls of the \<^verbatim>\<open>update\<close> callback
  (\<^verbatim>\<open>updateStatusBarAndDiagnostics\<close>, an \<^verbatim>\<open>async\<close> function that suspends at its first
  statement, so that a call changes nothing else before the caller continues), and
  \<open>sentNotifications\<close> counts \<^verbatim>\<open>client.sendNotification\<close>.

  A JavaScript \<^verbatim>\<open>Map\<close> whose size or iteration order is read is an association list in
  insertion order; the others are maps. \<^verbatim>\<open>eslintExecutionState.libs\<close> is an object used
  as a dictionary from library paths to booleans.
\<close>

record state =
  eslintExecutionState :: "string \<rightharpoonup> bool"
  eslintAlwaysAllowExecutionState :: bool
  sessionState :: "(string \<times> ExecutionParams) list"
  disabledLibraries :: "string set"
  resource2ResourceInfo :: "string \<rightharpoonup> ResourceInfo"
  libraryPath2ExecutionInfo :: "(string \<times> ExecutionInfo) list"
  workspaceFolder2ExecutionInfos :: "string \<rightharpoonup> string list"
  globalState_eslintLibraries :: "string \<rightharpoonup> bool"
  globalState_eslintAlwaysAllowExecution :: bool
  statusChanged :: nat
  sentNotifications :: nat

text \<open>An exception thrown by JavaScript code, with its message.\<close>

datatype exn = Exn string

text \<open>
  The calls into the editor host. \<^verbatim>\<open>Workspace.getWorkspaceFolder(uri)\<close> returns the folder
  (here: its URI) or \<^verbatim>\<open>undefined\<close>, or throws (it parses its argument);
  \<^verbatim>\<open>Languages.createDiagnosticCollection()\<close> returns a collection or throws;
  \<^verbatim>\<open>Uri.file(path).toString()\<close> is \<open>fileUri\<close>.
\<close>

record env =
  getWorkspaceFolder :: "string \<Rightarrow> exn + string option"
  createDiagnosticCollection :: "exn + DiagnosticCollection"
  fileUri :: "string \<Rightarrow> string"

section \<open>JavaScript \<^verbatim>\<open>Map\<close> as an association list\<close>

text \<open>
  \<^verbatim>\<open>Map.prototype.set\<close>: an existing key keeps its position and gets the new value, a
  new key is appended. \<^verbatim>\<open>Map.prototype.get\<close> is \<^const>\<open>map_of\<close>. The list of a
  \<^verbatim>\<open>Map\<close> has every key once, so that its length is the \<^verbatim>\<open>size\<close> of the
  \<^verbatim>\<open>Map\<close>; \<open>map_set\<close> keeps it so.
\<close>

fun map_set :: "'k \<Rightarrow> 'v \<Rightarrow> ('k \<times> 'v) list \<Rightarrow> ('k \<times> 'v) list" where
  "map_set k v [] = [(k, v)]"
| "map_set k v ((k', v') # kvs) =
     (if k' = k then (k, v) # kvs else (k', v') # map_set k v kvs)"

section \<open>Diagnostics of an execution record\<close>

text \<open>\<^verbatim>\<open>clearInfo\<close> (lines 489-494).\<close>

definition clearInfo :: "ExecutionInfo \<Rightarrow> ExecutionInfo" where
  "clearInfo info =
     info\<lparr>diagnostics := [],
          codeActionProvider :=
            (case codeActionProvider info of
               None \<Rightarrow> None
             | Some _ \<Rightarrow> Some (Disposable True))\<rparr>"

text \<open>\<^verbatim>\<open>clearDiagnosticState\<close> (lines 496-502).\<close>

definition clearDiagnosticState :: "'a ExecutionParams_scheme \<Rightarrow> state \<Rightarrow> state" where
  "clearDiagnosticState ps s =
     (case map_of (libraryPath2ExecutionInfo s) (libraryPath ps) of
        None \<Rightarrow> s
      | Some info \<Rightarrow>
          s\<lparr>libraryPath2ExecutionInfo :=
              map_set (libraryPath ps) (clearInfo info) (libraryPath2ExecutionInfo s)\<rparr>)"

text \<open>\<^verbatim>\<open>clearAllDiagnosticState\<close> (lines 504-509).\<close>

definition clearAllDiagnosticState :: "state \<Rightarrow> state" where
  "clearAllDiagnosticState s =
     s\<lparr>libraryPath2ExecutionInfo :=
         map (\<lambda>(k, info). (k, clearInfo info)) (libraryPath2ExecutionInfo s)\<rparr>"

section \<open>The \<^verbatim>\<open>ConfirmExecution\<close> request handler (lines 1397-1455)\<close>

text \<open>
  Lines 1401-1415: the decision, with the diagnostics it clears on the way. The local
  variable \<^verbatim>\<open>result\<close> is \<^verbatim>\<open>undefined\<close> (\<open>None\<close>) until a branch assigns it; line 1415
  replaces \<^verbatim>\<open>undefined\<close> by \<^verbatim>\<open>confirmationPending\<close>.
\<close>

definition decide :: "ConfirmExecutionParams \<Rightarrow> state \<Rightarrow> ConfirmExecutionResult \<times> state" where
  "decide ps s =
     (let (res, s') =
        (if libraryPath ps \<in> disabledLibraries s then (Some disabled, s)
         else
           (case eslintExecutionState s (libraryPath ps) of
              Some st \<Rightarrow>
                (Some (if st then approved else denied), clearDiagnosticState ps s)
            | None \<Rightarrow>
                if eslintAlwaysAllowExecutionState s
                then (Some approved, clearDiagnosticState ps s)
                else (None, s)))
      in (case res of None \<Rightarrow> confirmationPending | Some r \<Rightarrow> r, s'))"

text \<open>
  Lines 1416-1438: create the execution record if the library has none, and append it to
  the list of the resource's workspace folder; otherwise store the decision in the
  existing record.
\<close>

definition trackExecutionInfo ::
  "env \<Rightarrow> ConfirmExecutionParams \<Rightarrow> ConfirmExecutionResult \<Rightarrow> state \<Rightarrow> (exn + unit) \<times> state" where
  "trackExecutionInfo e ps r s =
     (case map_of (libraryPath2ExecutionInfo s) (libraryPath ps) of
        None \<Rightarrow>
          (case createDiagnosticCollection e of
             Inl x \<Rightarrow> (Inl x, s)
           | Inr dc \<Rightarrow>
               let info = \<lparr>params = ExecutionParams.truncate ps, result = r,
                            editorErrorUri = None, diagnostics = dc,
                            codeActionProvider = None\<rparr>;
                   s1 = s\<lparr>libraryPath2ExecutionInfo :=
                            map_set (libraryPath ps) info (libraryPath2ExecutionInfo s)\<rparr>
               in (case getWorkspaceFolder e (uri ps) of
                     Inl x \<Rightarrow> (Inl x, s1)
                   | Inr None \<Rightarrow> (Inr (), s1)
                   | Inr (Some key) \<Rightarrow>
                       let infos = (case workspaceFolder2ExecutionInfos s1 key of
                                      None \<Rightarrow> []
                                    | Some l \<Rightarrow> l)
                       in (Inr (),
                           s1\<lparr>workspaceFolder2ExecutionInfos :=
                                (workspaceFolder2ExecutionInfos s1)
                                  (key \<mapsto> infos @ [libraryPath ps])\<rparr>)))
      | Some info \<Rightarrow>
          (Inr (),
           s\<lparr>libraryPath2ExecutionInfo :=
               map_set (libraryPath ps) (info\<lparr>result := r\<rparr>) (libraryPath2ExecutionInfo s)\<rparr>))"

text \<open>Lines 1439-1448: the resource's own status.\<close>

definition trackResourceInfo :: "ConfirmExecutionParams \<Rightarrow> ConfirmExecutionResult \<Rightarrow> state \<Rightarrow> state" where
  "trackResourceInfo ps r s =
     (case resource2ResourceInfo s (uri ps) of
        None \<Rightarrow>
          s\<lparr>resource2ResourceInfo :=
              (resource2ResourceInfo s)
                (uri ps \<mapsto> \<lparr>status = toStatus r, executionInfo = Some (libraryPath ps)\<rparr>)\<rparr>
      | Some ri \<Rightarrow>
          s\<lparr>resource2ResourceInfo :=
              (resource2ResourceInfo s)(uri ps \<mapsto> ri\<lparr>status := toStatus r\<rparr>)\<rparr>)"

text \<open>
  The body of the \<^verbatim>\<open>try\<close> block (lines 1400-1450). It returns the decision or raises;
  what it has written to the module's variables before raising stays written.
\<close>

definition confirmBody ::
  "env \<Rightarrow> ConfirmExecutionParams \<Rightarrow> state \<Rightarrow> (exn + ConfirmExecutionResult) \<times> state" where
  "confirmBody e ps s =
     (let s1 = s\<lparr>sessionState :=
                  map_set (libraryPath ps) (ExecutionParams.truncate ps) (sessionState s)\<rparr>;
          (r, s2) = decide ps s1
      in (case trackExecutionInfo e ps r s2 of
            (Inl x, s3) \<Rightarrow> (Inl x, s3)
          | (Inr _, s3) \<Rightarrow>
              let s4 = trackResourceInfo ps r s3
              in (Inr r, s4\<lparr>statusChanged := Suc (statusChanged s4)\<rparr>)))"

text \<open>
  Modelled from the spec: \<^verbatim>\<open>Semaphore\<close> of \<^verbatim>\<open>./utils\<close>, which is not among the sources.
  The spec describes it as a single-slot mutual-exclusion gate of capacity 1: a call
  issued while another runs waits until that one has finished, so every locked function
  runs alone, from the state its predecessor left, and \<^verbatim>\<open>lock\<close> returns what the
  function returns.
\<close>

definition lock :: "(state \<Rightarrow> 'a \<times> state) \<Rightarrow> state \<Rightarrow> 'a \<times> state" where
  "lock thunk s = thunk s"

text \<open>
  The handler: the body under \<^verbatim>\<open>try\<close>, every exception answered by \<^verbatim>\<open>denied\<close>
  (lines 1451-1453), the whole run under the semaphore. \<open>Inl\<close> in the result would be an
  exception reaching the caller.
\<close>

definition ConfirmExecution ::
  "env \<Rightarrow> ConfirmExecutionParams \<Rightarrow> state \<Rightarrow> (exn + ConfirmExecutionResult) \<times> state" where
  "ConfirmExecution e ps =
     lock (\<lambda>s. case confirmBody e ps s of
                 (Inl err, s') \<Rightarrow> (Inr denied, s')
               | (Inr r, s') \<Rightarrow> (Inr r, s'))"

section \<open>The interactive confirmation (lines 441-455 and 511-571)\<close>

text \<open>\<^verbatim>\<open>updateExecutionInfo\<close> (lines 441-455).\<close>

definition updateExecutionInfo ::
  "env \<Rightarrow> ExecutionParams \<Rightarrow> ConfirmExecutionResult \<Rightarrow> state \<Rightarrow> (exn + unit) \<times> state" where
  "updateExecutionInfo e ps r s =
     (case map_of (libraryPath2ExecutionInfo s) (libraryPath ps) of
        None \<Rightarrow>
          (case createDiagnosticCollection e of
             Inl x \<Rightarrow> (Inl x, s)
           | Inr dc \<Rightarrow>
               (Inr (),
                s\<lparr>libraryPath2ExecutionInfo :=
                    map_set (libraryPath ps)
                      \<lparr>params = \<lparr>scope = scope ps, libraryPath = libraryPath ps\<rparr>,
                       result = r, editorErrorUri = None, diagnostics = dc,
                       codeActionProvider = None\<rparr>
                      (libraryPath2ExecutionInfo s)\<rparr>))
      | Some v \<Rightarrow>
          (Inr (),
           s\<lparr>libraryPath2ExecutionInfo :=
               map_set (libraryPath ps) (v\<lparr>result := r\<rparr>) (libraryPath2ExecutionInfo s)\<rparr>))"

text \<open>
  Line 557: a write \<^verbatim>\<open>libs[key] = value\<close> of a boolean to the plain object
  \<^verbatim>\<open>eslintExecutionState.libs\<close>. Under the name \<^verbatim>\<open>__proto__\<close> the object has the
  accessor it inherits from \<^verbatim>\<open>Object.prototype\<close>, whose setter ignores a value that is
  neither an object nor \<^verbatim>\<open>null\<close>: nothing is stored under that name.
\<close>

definition objectSet :: "string \<Rightarrow> bool \<Rightarrow> (string \<rightharpoonup> bool) \<Rightarrow> (string \<rightharpoonup> bool)" where
  "objectSet key val libs = (if key = ''__proto__'' then libs else libs(key \<mapsto> val))"

text \<open>
  Lines 549-567: what a selection does. The two \<^verbatim>\<open>context.globalState.update\<close> calls
  store the value the variable has at that moment.
\<close>

definition applySelection ::
  "env \<Rightarrow> ExecutionParams \<Rightarrow> ConfirmationSelection \<Rightarrow> state \<Rightarrow> (exn + unit) \<times> state" where
  "applySelection e ps v s =
     (if v = disable then
        (let s1 = s\<lparr>disabledLibraries := insert (libraryPath ps) (disabledLibraries s)\<rparr>
         in (case updateExecutionInfo e ps disabled s1 of
               (Inl x, s2) \<Rightarrow> (Inl x, s2)
             | (Inr _, s2) \<Rightarrow> (Inr (), clearDiagnosticState ps s2)))
      else
        (let s1 = s\<lparr>disabledLibraries := disabledLibraries s - {libraryPath ps}\<rparr>
         in if v = allow \<or> v = deny then
              (let val = (v = allow);
                   s2 = s1\<lparr>eslintExecutionState :=
                            objectSet (libraryPath ps) val (eslintExecutionState s1)\<rparr>;
                   s3 = s2\<lparr>globalState_eslintLibraries := eslintExecutionState s2\<rparr>
               in (case updateExecutionInfo e ps (if val then approved else denied) s3 of
                     (Inl x, s4) \<Rightarrow> (Inl x, s4)
                   | (Inr _, s4) \<Rightarrow> (Inr (), clearDiagnosticState ps s4)))
            else if v = alwaysAllow then
              (let s2 = s1\<lparr>eslintAlwaysAllowExecutionState := True\<rparr>;
                   s3 = s2\<lparr>globalState_eslintAlwaysAllowExecution :=
                            eslintAlwaysAllowExecutionState s2\<rparr>
               in (case updateExecutionInfo e ps approved s3 of
                     (Inl x, s4) \<Rightarrow> (Inl x, s4)
                   | (Inr _, s4) \<Rightarrow> (Inr (), clearAllDiagnosticState s4)))
            else (Inr (), s1)))"

text \<open>
  Lines 569-570 and 615-616: \<^verbatim>\<open>update && update()\<close> and
  \<^verbatim>\<open>client && client.sendNotification(...)\<close>. The arguments \<open>client\<close> and \<open>update\<close> say
  whether the caller passed a client and a callback or \<^verbatim>\<open>undefined\<close>.
\<close>

definition signalChange :: "bool \<Rightarrow> bool \<Rightarrow> state \<Rightarrow> state" where
  "signalChange client update s =
     (let s1 = (if update then s\<lparr>statusChanged := Suc (statusChanged s)\<rparr> else s)
      in if client then s1\<lparr>sentNotifications := Suc (sentNotifications s1)\<rparr> else s1)"

text \<open>
  \<^verbatim>\<open>askForLibraryConfirmation\<close> (lines 511-571). \<open>item\<close> is what the dialog of line 542
  resolves to: \<open>None\<close> when the user dismisses it. The text of the message does not reach
  the state; of lines 515-534 only the folder lookup, which may raise, is kept.
\<close>

definition askForLibraryConfirmation ::
  "env \<Rightarrow> bool \<Rightarrow> ExecutionParams \<Rightarrow> bool \<Rightarrow> ConfirmationSelection option \<Rightarrow> state
     \<Rightarrow> (exn + unit) \<times> state" where
  "askForLibraryConfirmation e client ps update item s =
     (let s1 = s\<lparr>sessionState := map_set (libraryPath ps) ps (sessionState s)\<rparr>
      in (case getWorkspaceFolder e (fileUri e (libraryPath ps)) of
            Inl x \<Rightarrow> (Inl x, s1)
          | Inr folder \<Rightarrow>
              (case item of
                 None \<Rightarrow> (Inr (), s1)
               | Some v \<Rightarrow>
                   (case applySelection e ps v s1 of
                      (Inl x, s2) \<Rightarrow> (Inl x, s2)
                    | (Inr _, s2) \<Rightarrow> (Inr (), signalChange client update s2)))))"

section \<open>Resetting the decisions (lines 573-617)\<close>

text \<open>The \<^verbatim>\<open>kind\<close> of a quick-pick item (line 575).\<close>

datatype ESLintQuickPickItemKind =
  kind_all | kind_allConfirmed | kind_allRejected | kind_session | kind_alwaysAllow

text \<open>Lines 577-583: the items offered; \<^verbatim>\<open>splice(1, 0, x)\<close> inserts at index 1.\<close>

definition resetItems :: "state \<Rightarrow> ESLintQuickPickItemKind list" where
  "resetItems s =
     (if eslintAlwaysAllowExecutionState s
      then [kind_session, kind_alwaysAllow, kind_all]
      else [kind_session, kind_all])"

text \<open>Lines 609-616: what every mode that does not return early ends with.\<close>

definition finishReset :: "bool \<Rightarrow> bool \<Rightarrow> state \<Rightarrow> state" where
  "finishReset client update s =
     signalChange client update
       (s\<lparr>globalState_eslintLibraries := eslintExecutionState s,
          globalState_eslintAlwaysAllowExecution := eslintAlwaysAllowExecutionState s,
          disabledLibraries := {},
          libraryPath2ExecutionInfo := [],
          resource2ResourceInfo := Map.empty,
          workspaceFolder2ExecutionInfos := Map.empty\<rparr>)"

text \<open>
  \<^verbatim>\<open>resetLibraryConfirmations\<close> (lines 573-617). \<open>selectedIdx\<close> is what the quick pick
  resolves to, \<open>-1\<close> when it is dismissed; \<open>item\<close> is the answer to the confirmation
  dialog, asked only when the session mode redirects to it. An index outside the items
  makes \<^verbatim>\<open>selected\<close> undefined, and reading \<^verbatim>\<open>selected.kind\<close> raises.
\<close>

definition resetLibraryConfirmations ::
  "env \<Rightarrow> bool \<Rightarrow> bool \<Rightarrow> int \<Rightarrow> ConfirmationSelection option \<Rightarrow> state
     \<Rightarrow> (exn + unit) \<times> state" where
  "resetLibraryConfirmations e client update selectedIdx item s =
     (let items = resetItems s
      in if selectedIdx = - 1 then (Inr (), s)
         else if selectedIdx < 0 \<or> int (length items) \<le> selectedIdx
         then (Inl (Exn ''TypeError''), s)
         else
           (case items ! nat selectedIdx of
              kind_all \<Rightarrow>
                (Inr (),
                 finishReset client update
                   (s\<lparr>eslintExecutionState := Map.empty,
                      eslintAlwaysAllowExecutionState := False\<rparr>))
            | kind_alwaysAllow \<Rightarrow>
                (Inr (),
                 finishReset client update (s\<lparr>eslintAlwaysAllowExecutionState := False\<rparr>))
            | kind_session \<Rightarrow>
                if length (sessionState s) = 1
                then askForLibraryConfirmation e client (snd (hd (sessionState s)))
                       update item s
                else
                  (Inr (),
                   finishReset client update
                     (s\<lparr>eslintExecutionState :=
                          foldl (\<lambda>libs lib. libs(lib := None)) (eslintExecutionState s)
                            (map fst (sessionState s))\<rparr>))
            | _ \<Rightarrow> (Inr (), finishReset client update s)))"

section \<open>The status of the focused resource (lines 874-903)\<close>

text \<open>
  The \<^verbatim>\<open>for\<close> loop of lines 889-901 over the candidates still to visit; \<open>res\<close> is the
  local variable \<^verbatim>\<open>result\<close>, \<^verbatim>\<open>undefined\<close> before the first candidate. The second branch
  is the \<^verbatim>\<open>break\<close>.
\<close>

fun scanCandidates ::
  "ConfirmExecutionResult option \<Rightarrow> ExecutionInfo list \<Rightarrow> ConfirmExecutionResult option" where
  "scanCandidates res [] = res"
| "scanCandidates res (info # candidates) =
     (if res = None then scanCandidates (Some (result info)) candidates
      else if result info = confirmationPending then Some (result info)
      else if result info = denied \<or> result info = disabled
      then scanCandidates (Some (result info)) candidates
      else scanCandidates res candidates)"

text \<open>Lines 889-902.\<close>

definition reduceCandidates :: "ExecutionInfo list \<Rightarrow> Status \<times> bool" where
  "reduceCandidates candidates =
     (case scanCandidates None candidates of
        Some r \<Rightarrow> (toStatus r, False)
      | None \<Rightarrow> (Status_ok, False))"

text \<open>
  The records a list of references stands for, and all tracked records in insertion
  order (\<^verbatim>\<open>libraryPath2ExecutionInfo.values()\<close>).
\<close>

definition deref :: "state \<Rightarrow> string list \<Rightarrow> ExecutionInfo list" where
  "deref s refs = List.map_filter (map_of (libraryPath2ExecutionInfo s)) refs"

definition allExecutionInfos :: "state \<Rightarrow> ExecutionInfo list" where
  "allExecutionInfos s = map snd (libraryPath2ExecutionInfo s)"

text \<open>
  \<^verbatim>\<open>findApplicableStatus\<close> (lines 874-903); \<open>editor\<close> is the URI of the focused document,
  \<open>None\<close> when there is none.
\<close>

definition findApplicableStatus :: "env \<Rightarrow> string option \<Rightarrow> state \<Rightarrow> exn + Status \<times> bool" where
  "findApplicableStatus e editor s =
     (case editor of
        None \<Rightarrow> Inr (reduceCandidates (allExecutionInfos s))
      | Some u \<Rightarrow>
          (case resource2ResourceInfo s u of
             Some resourceInfo \<Rightarrow> Inr (status resourceInfo, True)
           | None \<Rightarrow>
               (case getWorkspaceFolder e u of
                  Inl x \<Rightarrow> Inl x
                | Inr None \<Rightarrow> Inr (reduceCandidates (allExecutionInfos s))
                | Inr (Some folder) \<Rightarrow>
                    (case workspaceFolder2ExecutionInfos s folder of
                       None \<Rightarrow> Inr (reduceCandidates (allExecutionInfos s))
                     | Some refs \<Rightarrow> Inr (reduceCandidates (deref s refs))))))"

section \<open>The working directory of a document (lines 1100-1173)\<close>

datatype ModeEnum = auto | location

text \<open>
  An entry of the \<^verbatim>\<open>workingDirectories\<close> setting, by the first test of the chain of
  lines 1108-1126 that it passes: \<^verbatim>\<open>Is.string\<close>, \<^verbatim>\<open>LegacyDirectoryItem.is\<close>,
  \<^verbatim>\<open>DirectoryItem.is\<close>, \<^verbatim>\<open>PatternItem.is\<close>, \<^verbatim>\<open>ModeItem.is\<close>, or none of them. The
  optional boolean is the property \<^verbatim>\<open>'!cwd'\<close>.
\<close>

datatype WorkingDirectoryEntry =
    StringEntry string
  | LegacyDirectoryItem string bool
  | DirectoryItem string "bool option"
  | PatternItem string "bool option"
  | ModeItem ModeEnum
  | OtherEntry

text \<open>The value of the variable \<^verbatim>\<open>workingDirectory\<close>: a mode item or a directory item
  with its \<^verbatim>\<open>'!cwd'\<close>.\<close>

datatype WorkingDirectory =
    WD_ModeItem ModeEnum
  | WD_DirectoryItem string bool

text \<open>
  What the resolver takes from elsewhere: \<^verbatim>\<open>toOSPath\<close>, \<^verbatim>\<open>toPosixPath\<close> and
  \<^verbatim>\<open>convert2RegExp\<close> of \<^verbatim>\<open>./utils\<close>, and \<^verbatim>\<open>isAbsolute\<close>, \<^verbatim>\<open>join\<close> and \<^verbatim>\<open>sep\<close> of
  Node's \<^verbatim>\<open>path\<close> and \<^verbatim>\<open>path.posix\<close>. A compiled regular expression is given by its
  \<^verbatim>\<open>exec\<close>: the match array, or \<open>None\<close> for \<^verbatim>\<open>null\<close>. \<^verbatim>\<open>path.posix.sep\<close> is the slash.
\<close>

record pathEnv =
  toOSPath :: "string \<Rightarrow> string"
  isAbsolute :: "string \<Rightarrow> bool"
  join :: "string \<Rightarrow> string \<Rightarrow> string"
  sep :: char
  toPosixPath :: "string \<Rightarrow> string"
  posix_isAbsolute :: "string \<Rightarrow> bool"
  posix_join :: "string \<Rightarrow> string \<Rightarrow> string"
  convert2RegExp :: "string \<Rightarrow> (string \<Rightarrow> string list option) option"

text \<open>Lines 1108-1122: \<^verbatim>\<open>directory\<close>, \<^verbatim>\<open>pattern\<close> and \<^verbatim>\<open>noCWD\<close> of an entry.\<close>

fun entryFields :: "WorkingDirectoryEntry \<Rightarrow> string option \<times> string option \<times> bool" where
  "entryFields (StringEntry d) = (Some d, None, False)"
| "entryFields (LegacyDirectoryItem d changeProcessCWD) = (Some d, None, \<not> changeProcessCWD)"
| "entryFields (DirectoryItem d cwd) =
     (Some d, None, (case cwd of None \<Rightarrow> False | Some b \<Rightarrow> b))"
| "entryFields (PatternItem p cwd) =
     (None, Some p, (case cwd of None \<Rightarrow> False | Some b \<Rightarrow> b))"
| "entryFields (ModeItem m) = (None, None, False)"
| "entryFields OtherEntry = (None, None, False)"

text \<open>
  Lines 1134-1143. \<^verbatim>\<open>charAt(length - 1)\<close> of the empty string is the empty string, which
  differs from the separator.
\<close>

definition directoryItemValue :: "pathEnv \<Rightarrow> string \<Rightarrow> string option \<Rightarrow> string \<Rightarrow> string option" where
  "directoryItemValue pe filePath workspaceFolderPath directory =
     (let d1 = toOSPath pe directory;
          d2 = (case workspaceFolderPath of
                  None \<Rightarrow> d1
                | Some w \<Rightarrow> if \<not> isAbsolute pe d1 then join pe w d1 else d1);
          d3 = (if d2 = [] \<or> last d2 \<noteq> sep pe then d2 @ [sep pe] else d2)
      in if prefix d3 filePath then Some d3 else None)"

text \<open>Lines 1144-1158.\<close>

definition patternItemValue :: "pathEnv \<Rightarrow> string \<Rightarrow> string option \<Rightarrow> string \<Rightarrow> string option" where
  "patternItemValue pe filePath workspaceFolderPath pattern =
     (if pattern = [] then None
      else
        (let p1 = (case workspaceFolderPath of
                     None \<Rightarrow> pattern
                   | Some w \<Rightarrow>
                       if \<not> posix_isAbsolute pe pattern
                       then posix_join pe (toPosixPath pe w) pattern else pattern);
             p2 = (if p1 = [] \<or> last p1 \<noteq> CHR ''/'' then p1 @ ''/'' else p1)
         in (case convert2RegExp pe p2 of
               None \<Rightarrow> None
             | Some regExp \<Rightarrow>
                 (case regExp filePath of
                    None \<Rightarrow> None
                  | Some [] \<Rightarrow> None
                  | Some (m # _) \<Rightarrow> Some m))))"

text \<open>
  Lines 1128-1160: the candidate of an entry. \<open>filePath\<close> is the document's file-system
  path, \<open>None\<close> when its URI has another scheme than \<^verbatim>\<open>file\<close>.
\<close>

definition itemValue ::
  "pathEnv \<Rightarrow> string option \<Rightarrow> string option \<Rightarrow> WorkingDirectoryEntry \<Rightarrow> string option" where
  "itemValue pe filePath workspaceFolderPath entry =
     (case entryFields entry of
        (directory, pattern, noCWD) \<Rightarrow>
          (case filePath of
             None \<Rightarrow> None
           | Some fp \<Rightarrow>
               (case directory of
                  Some d \<Rightarrow> directoryItemValue pe fp workspaceFolderPath d
                | None \<Rightarrow>
                    (case pattern of
                       Some p \<Rightarrow> patternItemValue pe fp workspaceFolderPath p
                     | None \<Rightarrow> None))))"

text \<open>
  Lines 1161-1170: a candidate \<open>v\<close> with its \<^verbatim>\<open>noCWD\<close> against what
  \<^verbatim>\<open>workingDirectory\<close> holds.
\<close>

definition keepCandidate ::
  "WorkingDirectory option \<Rightarrow> string \<Rightarrow> bool \<Rightarrow> WorkingDirectory option" where
  "keepCandidate workingDirectory v noCWD =
     (case workingDirectory of
        None \<Rightarrow> Some (WD_DirectoryItem v noCWD)
      | Some (WD_ModeItem _) \<Rightarrow> Some (WD_DirectoryItem v noCWD)
      | Some (WD_DirectoryItem d c) \<Rightarrow>
          if length d < length v then Some (WD_DirectoryItem v noCWD)
          else workingDirectory)"

text \<open>
  One round of the loop of lines 1104-1171: a mode item is stored and the round ends
  (\<^verbatim>\<open>continue\<close>, lines 1123-1126); any other entry is kept or not by its candidate.
\<close>

definition workingDirectoryStep ::
  "pathEnv \<Rightarrow> string option \<Rightarrow> string option \<Rightarrow> WorkingDirectory option
     \<Rightarrow> WorkingDirectoryEntry \<Rightarrow> WorkingDirectory option" where
  "workingDirectoryStep pe filePath workspaceFolderPath workingDirectory entry =
     (case entry of
        ModeItem m \<Rightarrow> Some (WD_ModeItem m)
      | _ \<Rightarrow>
          (case itemValue pe filePath workspaceFolderPath entry of
             None \<Rightarrow> workingDirectory
           | Some v \<Rightarrow> keepCandidate workingDirectory v (snd (snd (entryFields entry)))))"

fun workingDirectoryLoop ::
  "pathEnv \<Rightarrow> string option \<Rightarrow> string option \<Rightarrow> WorkingDirectory option
     \<Rightarrow> WorkingDirectoryEntry list \<Rightarrow> WorkingDirectory option" where
  "workingDirectoryLoop pe filePath workspaceFolderPath workingDirectory [] = workingDirectory"
| "workingDirectoryLoop pe filePath workspaceFolderPath workingDirectory (entry # entries) =
     workingDirectoryLoop pe filePath workspaceFolderPath
       (workingDirectoryStep pe filePath workspaceFolderPath workingDirectory entry) entries"

text \<open>Lines 1102-1172: what \<^verbatim>\<open>settings.workingDirectory\<close> is set to.\<close>

definition resolveWorkingDirectory ::
  "pathEnv \<Rightarrow> string option \<Rightarrow> string option \<Rightarrow> WorkingDirectoryEntry list
     \<Rightarrow> WorkingDirectory option" where
  "resolveWorkingDirectory pe filePath workspaceFolderPath workingDirectories =
     workingDirectoryLoop pe filePath workspaceFolderPath None workingDirectories"

text \<open>
  The candidates of a rule list, each with the \<^verbatim>\<open>noCWD\<close> of its rule, in the order of
  the rules.
\<close>

definition candidatesOf ::
  "pathEnv \<Rightarrow> string option \<Rightarrow> string option \<Rightarrow> WorkingDirectoryEntry list
     \<Rightarrow> (string \<times> bool) list" where
  "candidatesOf pe filePath workspaceFolderPath entries =
     List.map_filter
       (\<lambda>entry. case itemValue pe filePath workspaceFolderPath entry of
                  None \<Rightarrow> None
                | Some v \<Rightarrow> Some (v, snd (snd (entryFields entry))))
       entries"

section \<open>The precedence of the statuses, in the words of the specification\<close>

text \<open>
  The reduction as the specification words it: the first record seeds the running
  result; a later pending record wins and ends the scan; a later denied or disabled
  record overwrites the running result and the scan goes on; a later approved record
  leaves the running result as it is. \<open>specScan running later\<close> is the decision the scan
  ends with, \<open>specStatus\<close> the display status: the baseline for no record at all.
\<close>

fun specScan :: "ConfirmExecutionResult \<Rightarrow> ConfirmExecutionResult list \<Rightarrow> ConfirmExecutionResult" where
  "specScan running [] = running"
| "specScan running (confirmationPending # later) = confirmationPending"
| "specScan running (denied # later) = specScan denied later"
| "specScan running (disabled # later) = specScan disabled later"
| "specScan running (approved # later) = specScan running later"

fun specStatus :: "ConfirmExecutionResult list \<Rightarrow> Status" where
  "specStatus [] = Status_ok"
| "specStatus (first # later) =
     (case specScan first later of
        approved \<Rightarrow> Status_ok
      | confirmationPending \<Rightarrow> Status_confirmationPending
      | denied \<Rightarrow> Status_executionDenied
      | disabled \<Rightarrow> Status_executionDisabled)"

section \<open>Example inputs\<close>

text \<open>A host whose calls return, and one that cannot create a diagnostic collection.\<close>

definition ex_host :: env where
  "ex_host =
     \<lparr>getWorkspaceFolder = (\<lambda>u. Inr (Some ''file:///ws'')),
      createDiagnosticCollection = Inr [],
      fileUri = (\<lambda>p. ''file://'' @ p)\<rparr>"

definition ex_failing_host :: env where
  "ex_failing_host =
     \<lparr>getWorkspaceFolder = (\<lambda>u. Inr (Some ''file:///ws'')),
      createDiagnosticCollection = Inl (Exn ''disposed''),
      fileUri = (\<lambda>p. ''file://'' @ p)\<rparr>"

text \<open>Two libraries, the requests that ask for them, and an execution record of each
  that has a pending-confirmation diagnostic on a document.\<close>

definition ex_libA :: string where
  "ex_libA = ''/ws/node_modules/eslint/lib/api.js''"

definition ex_libB :: string where
  "ex_libB = ''/ws/pkg/node_modules/eslint/lib/api.js''"

definition ex_paramsA :: ExecutionParams where
  "ex_paramsA = \<lparr>scope = scope_local, libraryPath = ex_libA\<rparr>"

definition ex_paramsB :: ExecutionParams where
  "ex_paramsB = \<lparr>scope = scope_local, libraryPath = ex_libB\<rparr>"

definition ex_requestA :: ConfirmExecutionParams where
  "ex_requestA = \<lparr>scope = scope_local, libraryPath = ex_libA, uri = ''file:///ws/a.js''\<rparr>"

definition ex_infoA :: ExecutionInfo where
  "ex_infoA =
     \<lparr>params = ex_paramsA, result = confirmationPending,
      editorErrorUri = Some ''file:///ws/a.js'',
      diagnostics = [(''file:///ws/a.js'', [''not approved or denied yet''])],
      codeActionProvider = Some (Disposable False)\<rparr>"

definition ex_infoB :: ExecutionInfo where
  "ex_infoB =
     \<lparr>params = ex_paramsB, result = confirmationPending,
      editorErrorUri = Some ''file:///ws/pkg/b.js'',
      diagnostics = [(''file:///ws/pkg/b.js'', [''not approved or denied yet''])],
      codeActionProvider = Some (Disposable False)\<rparr>"

text \<open>The state after activation with nothing stored.\<close>

definition ex_initial :: state where
  "ex_initial =
     \<lparr>eslintExecutionState = Map.empty,
      eslintAlwaysAllowExecutionState = False,
      sessionState = [],
      disabledLibraries = {},
      resource2ResourceInfo = Map.empty,
      libraryPath2ExecutionInfo = [],
      workspaceFolder2ExecutionInfos = Map.empty,
      globalState_eslintLibraries = Map.empty,
      globalState_eslintAlwaysAllowExecution = False,
      statusChanged = 0,
      sentNotifications = 0\<rparr>"

text \<open>Always-allow is on and library A has been denied.\<close>

definition ex_denied_under_alwaysAllow :: state where
  "ex_denied_under_alwaysAllow =
     ex_initial\<lparr>eslintExecutionState := [ex_libA \<mapsto> False],
                eslintAlwaysAllowExecutionState := True\<rparr>"

text \<open>Always-allow is on, nothing is stored, and both libraries are tracked with a
  pending-confirmation diagnostic each.\<close>

definition ex_two_pending :: state where
  "ex_two_pending =
     ex_initial\<lparr>eslintAlwaysAllowExecutionState := True,
                sessionState := [(ex_libA, ex_paramsA), (ex_libB, ex_paramsB)],
                libraryPath2ExecutionInfo := [(ex_libA, ex_infoA), (ex_libB, ex_infoB)]\<rparr>"

text \<open>One library has been asked for in this session, and it is tracked.\<close>

definition ex_one_session :: state where
  "ex_one_session =
     ex_initial\<lparr>sessionState := [(ex_libA, ex_paramsA)],
                libraryPath2ExecutionInfo := [(ex_libA, ex_infoA)]\<rparr>"


text \<open>Library A is stored as allowed and has no execution record yet.\<close>

definition ex_stored_true :: state where
  "ex_stored_true = ex_initial\<lparr>eslintExecutionState := [ex_libA \<mapsto> True]\<rparr>"

text \<open>Both libraries are tracked, the first approved and the second denied; the list
  of the workspace folder holds the first only.\<close>

definition ex_approved_then_denied :: state where
  "ex_approved_then_denied =
     ex_initial\<lparr>libraryPath2ExecutionInfo :=
                  [(ex_libA, ex_infoA\<lparr>result := approved\<rparr>),
                   (ex_libB, ex_infoB\<lparr>result := denied\<rparr>)],
                workspaceFolder2ExecutionInfos := [''file:///ws'' \<mapsto> [ex_libA]]\<rparr>"

text \<open>
  A POSIX host for rules with absolute directories: there \<^verbatim>\<open>toOSPath\<close> changes
  nothing and \<^verbatim>\<open>path.join\<close> is not reached; no pattern is compiled.
\<close>

definition ex_posix :: pathEnv where
  "ex_posix =
     \<lparr>toOSPath = (\<lambda>p. p),
      isAbsolute = (\<lambda>p. p \<noteq> [] \<and> hd p = CHR ''/''),
      join = (\<lambda>a b. a @ ''/'' @ b),
      sep = CHR ''/'',
      toPosixPath = (\<lambda>p. p),
      posix_isAbsolute = (\<lambda>p. p \<noteq> [] \<and> hd p = CHR ''/''),
      posix_join = (\<lambda>a b. a @ ''/'' @ b),
      convert2RegExp = (\<lambda>p. None)\<rparr>"

text \<open>Two rules with the same directory and different \<^verbatim>\<open>'!cwd'\<close>, and the two
  nested directories of the specification's example.\<close>

definition ex_tied_rules :: "WorkingDirectoryEntry list" where
  "ex_tied_rules =
     [DirectoryItem ''/proj/a/'' (Some False), DirectoryItem ''/proj/a/'' (Some True)]"

definition ex_nested_rules :: "WorkingDirectoryEntry list" where
  "ex_nested_rules =
     [DirectoryItem ''/proj/a/'' (Some False), DirectoryItem ''/proj/a/b/'' (Some True)]"

section \<open>Facts about the association lists and the decision\<close>

lemma map_of_map_set:
  "map_of (map_set k v kvs) k' = (if k' = k then Some v else map_of kvs k')"
  by (induction kvs) auto

lemma keys_map_set:
  "fst ` set (map_set k v kvs) = insert k (fst ` set kvs)"
proof (induction kvs)
  case Nil
  show ?case by simp
next
  case (Cons kv kvs)
  obtain k' v' where kv: "kv = (k', v')" by (cases kv)
  show ?case
  proof (cases "k' = k")
    case True
    then show ?thesis by (simp add: kv)
  next
    case False
    with Cons.IH show ?thesis by (simp add: kv insert_commute)
  qed
qed

lemma distinct_map_set:
  "distinct (map fst kvs) \<Longrightarrow> distinct (map fst (map_set k v kvs))"
proof (induction kvs)
  case Nil
  show ?case by simp
next
  case (Cons kv kvs)
  obtain k' v' where kv: "kv = (k', v')" by (cases kv)
  show ?case
  proof (cases "k' = k")
    case True
    with Cons.prems show ?thesis by (simp add: kv)
  next
    case False
    from Cons.prems have n: "k' \<notin> fst ` set kvs" and d: "distinct (map fst kvs)"
      by (simp_all add: kv)
    from n False have "k' \<notin> fst ` set (map_set k v kvs)"
      by (simp add: keys_map_set)
    with False Cons.IH [OF d] show ?thesis by (simp add: kv)
  qed
qed

lemma tracked_clearDiagnosticState:
  "map_of (libraryPath2ExecutionInfo (clearDiagnosticState ps s)) k = None
     \<longleftrightarrow> map_of (libraryPath2ExecutionInfo s) k = None"
  by (auto simp: clearDiagnosticState_def map_of_map_set split: option.splits)

lemma fst_decide:
  "fst (decide ps s) =
     (if libraryPath ps \<in> disabledLibraries s then disabled
      else case eslintExecutionState s (libraryPath ps) of
             Some st \<Rightarrow> if st then approved else denied
           | None \<Rightarrow> if eslintAlwaysAllowExecutionState s then approved
                     else confirmationPending)"
  by (simp add: decide_def split: option.splits)

lemma snd_decide:
  "snd (decide ps s) =
     (if libraryPath ps \<notin> disabledLibraries s
         \<and> (eslintExecutionState s (libraryPath ps) \<noteq> None \<or> eslintAlwaysAllowExecutionState s)
      then clearDiagnosticState ps s else s)"
  by (auto simp add: decide_def split: option.splits)

lemma tracked_decide:
  "map_of (libraryPath2ExecutionInfo (snd (decide ps s))) k = None
     \<longleftrightarrow> map_of (libraryPath2ExecutionInfo s) k = None"
  by (simp add: snd_decide tracked_clearDiagnosticState)

text \<open>The tracking step raises only for an untracked library, when one of the two host
  calls it then makes raises.\<close>

lemma fst_trackExecutionInfo:
  "fst (trackExecutionInfo e ps r s) =
     (case map_of (libraryPath2ExecutionInfo s) (libraryPath ps) of
        Some _ \<Rightarrow> Inr ()
      | None \<Rightarrow>
          (case createDiagnosticCollection e of
             Inl x \<Rightarrow> Inl x
           | Inr _ \<Rightarrow>
               (case getWorkspaceFolder e (uri ps) of
                  Inl x \<Rightarrow> Inl x
                | Inr _ \<Rightarrow> Inr ())))"
  by (simp add: trackExecutionInfo_def Let_def split: option.splits sum.splits)

lemma fst_confirmBody:
  "fst (confirmBody e ps s) =
     (case map_of (libraryPath2ExecutionInfo s) (libraryPath ps) of
        Some _ \<Rightarrow> Inr (fst (decide ps s))
      | None \<Rightarrow>
          (case createDiagnosticCollection e of
             Inl x \<Rightarrow> Inl x
           | Inr _ \<Rightarrow>
               (case getWorkspaceFolder e (uri ps) of
                  Inl x \<Rightarrow> Inl x
                | Inr _ \<Rightarrow> Inr (fst (decide ps s)))))"
proof -
  let ?s1 = "s\<lparr>sessionState :=
                 map_set (libraryPath ps) (ExecutionParams.truncate ps) (sessionState s)\<rparr>"
  have d: "fst (decide ps ?s1) = fst (decide ps s)"
    by (simp add: fst_decide)
  have t: "map_of (libraryPath2ExecutionInfo (snd (decide ps ?s1))) (libraryPath ps) = None
             \<longleftrightarrow> map_of (libraryPath2ExecutionInfo s) (libraryPath ps) = None"
    by (simp add: tracked_decide)
  have "fst (confirmBody e ps s) =
          (case fst (trackExecutionInfo e ps (fst (decide ps ?s1)) (snd (decide ps ?s1))) of
             Inl x \<Rightarrow> Inl x
           | Inr _ \<Rightarrow> Inr (fst (decide ps ?s1)))"
    by (simp add: confirmBody_def Let_def split: prod.splits sum.splits)
  then show ?thesis
    using t by (auto simp add: fst_trackExecutionInfo d split: option.splits sum.splits)
qed

lemma fst_ConfirmExecution:
  "fst (ConfirmExecution e ps s) =
     (case fst (confirmBody e ps s) of Inl _ \<Rightarrow> Inr denied | Inr r \<Rightarrow> Inr r)"
  by (simp add: ConfirmExecution_def lock_def split: prod.splits sum.splits)

section \<open>The decision of the gate\<close>

text \<open>
  C1, as amended. A call of the handler whose run raises no exception (the library is
  tracked already, or the two host calls made for an untracked library return) answers
  in this order: disabled if the library path is in the disabled set; else approved or denied as
  the stored boolean says; else approved if always-allow is on; else pending.
\<close>

theorem ConfirmExecution_decision_order:
  assumes "map_of (libraryPath2ExecutionInfo s) (libraryPath ps) \<noteq> None
           \<or> (\<exists>dc. createDiagnosticCollection e = Inr dc)
             \<and> (\<exists>folder. getWorkspaceFolder e (uri ps) = Inr folder)"
  shows "fst (ConfirmExecution e ps s) =
           Inr (if libraryPath ps \<in> disabledLibraries s then disabled
                else case eslintExecutionState s (libraryPath ps) of
                       Some st \<Rightarrow> if st then approved else denied
                     | None \<Rightarrow> if eslintAlwaysAllowExecutionState s then approved
                               else confirmationPending)"
  using assms
  by (auto simp add: fst_ConfirmExecution fst_confirmBody fst_decide
      split: option.splits sum.splits)

theorem ConfirmExecution_decision_order_witness:
  "fst (ConfirmExecution ex_host ex_requestA ex_initial) = Inr confirmationPending
   \<and> fst (ConfirmExecution ex_host ex_requestA ex_denied_under_alwaysAllow) = Inr denied"
proof -
  have h1: "map_of (libraryPath2ExecutionInfo ex_initial) (libraryPath ex_requestA) \<noteq> None
            \<or> (\<exists>dc. createDiagnosticCollection ex_host = Inr dc)
              \<and> (\<exists>folder. getWorkspaceFolder ex_host (uri ex_requestA) = Inr folder)"
    by (simp add: ex_host_def)
  have h2: "map_of (libraryPath2ExecutionInfo ex_denied_under_alwaysAllow)
              (libraryPath ex_requestA) \<noteq> None
            \<or> (\<exists>dc. createDiagnosticCollection ex_host = Inr dc)
              \<and> (\<exists>folder. getWorkspaceFolder ex_host (uri ex_requestA) = Inr folder)"
    by (simp add: ex_host_def)
  show ?thesis
    using ConfirmExecution_decision_order [OF h1] ConfirmExecution_decision_order [OF h2]
    by (simp add: ex_requestA_def ex_initial_def ex_denied_under_alwaysAllow_def)
qed

text \<open>The claim as it was stated, for every call, fails when the run raises: library A is
  stored as allowed and not disabled, the host cannot create the diagnostic collection
  of its new execution record, and the answer is denied, not approved.\<close>

theorem ConfirmExecution_decision_order_counterexample:
  "libraryPath ex_requestA \<notin> disabledLibraries ex_stored_true
   \<and> eslintExecutionState ex_stored_true (libraryPath ex_requestA) = Some True
   \<and> fst (ConfirmExecution ex_failing_host ex_requestA ex_stored_true) = Inr denied"
  by (simp add: fst_ConfirmExecution fst_confirmBody ex_failing_host_def ex_requestA_def
      ex_stored_true_def ex_initial_def)

text \<open>
  C2. The handler always answers with a decision, never with an exception; and whenever
  the body of its \<^verbatim>\<open>try\<close> block raises, the answer is denied.
\<close>

theorem ConfirmExecution_fails_closed:
  "(\<exists>r. fst (ConfirmExecution e ps s) = Inr r)
   \<and> ((\<exists>x. fst (confirmBody e ps s) = Inl x)
        \<longrightarrow> fst (ConfirmExecution e ps s) = Inr denied)"
  by (auto simp add: fst_ConfirmExecution split: sum.splits)

theorem ConfirmExecution_fails_closed_witness:
  "fst (confirmBody ex_failing_host ex_requestA ex_initial) = Inl (Exn ''disposed'')
   \<and> fst (ConfirmExecution ex_failing_host ex_requestA ex_initial) = Inr denied"
proof -
  have h: "fst (confirmBody ex_failing_host ex_requestA ex_initial) = Inl (Exn ''disposed'')"
    by (simp add: fst_confirmBody ex_failing_host_def ex_initial_def)
  then have "\<exists>x. fst (confirmBody ex_failing_host ex_requestA ex_initial) = Inl x"
    by blast
  with ConfirmExecution_fails_closed [of ex_failing_host ex_requestA ex_initial] h
  show ?thesis by blast
qed




section \<open>What the gate does to the diagnostics\<close>

lemma snd_ConfirmExecution: "snd (ConfirmExecution e ps s) = snd (confirmBody e ps s)"
  by (simp add: ConfirmExecution_def lock_def split: prod.splits sum.splits)

lemma infos_clearDiagnosticState:
  "map_of (libraryPath2ExecutionInfo (clearDiagnosticState ps s)) k =
     (if k = libraryPath ps then map_option clearInfo (map_of (libraryPath2ExecutionInfo s) k)
      else map_of (libraryPath2ExecutionInfo s) k)"
  by (auto simp: clearDiagnosticState_def map_of_map_set split: option.splits)

lemma infos_trackExecutionInfo_other:
  "k \<noteq> libraryPath ps \<Longrightarrow>
     map_of (libraryPath2ExecutionInfo (snd (trackExecutionInfo e ps r s))) k =
     map_of (libraryPath2ExecutionInfo s) k"
  by (simp add: trackExecutionInfo_def Let_def map_of_map_set split: option.splits sum.splits)

lemma infos_trackExecutionInfo_tracked:
  "map_of (libraryPath2ExecutionInfo s) (libraryPath ps) = Some info \<Longrightarrow>
     map_of (libraryPath2ExecutionInfo (snd (trackExecutionInfo e ps r s))) (libraryPath ps) =
     Some (info\<lparr>result := r\<rparr>)"
  by (simp add: trackExecutionInfo_def map_of_map_set)

lemma infos_trackResourceInfo:
  "libraryPath2ExecutionInfo (trackResourceInfo ps r s) = libraryPath2ExecutionInfo s"
  by (simp add: trackResourceInfo_def split: option.splits)

lemma infos_confirmBody:
  "libraryPath2ExecutionInfo (snd (confirmBody e ps s)) =
     libraryPath2ExecutionInfo
       (snd (trackExecutionInfo e ps (fst (decide ps s))
          (snd (decide ps (s\<lparr>sessionState :=
             map_set (libraryPath ps) (ExecutionParams.truncate ps) (sessionState s)\<rparr>)))))"
proof -
  let ?s1 = "s\<lparr>sessionState :=
                 map_set (libraryPath ps) (ExecutionParams.truncate ps) (sessionState s)\<rparr>"
  have d: "fst (decide ps ?s1) = fst (decide ps s)"
    by (simp add: fst_decide)
  show ?thesis
    unfolding d [symmetric]
    by (simp add: confirmBody_def Let_def infos_trackResourceInfo split: prod.splits sum.splits)
qed

lemma infos_decide_session:
  "libraryPath2ExecutionInfo (snd (decide ps (s\<lparr>sessionState := ss\<rparr>))) =
   libraryPath2ExecutionInfo (snd (decide ps s))"
  by (simp add: snd_decide clearDiagnosticState_def split: option.splits)

lemma infos_confirmBody_other:
  assumes "k \<noteq> libraryPath ps"
  shows "map_of (libraryPath2ExecutionInfo (snd (confirmBody e ps s))) k =
         map_of (libraryPath2ExecutionInfo s) k"
  using assms
  by (simp add: infos_confirmBody infos_trackExecutionInfo_other infos_decide_session
      snd_decide infos_clearDiagnosticState)

text \<open>
  C7, as amended. When the handler resolves a library through always-allow (it is not
  disabled and has no stored decision), it clears the diagnostics of that library's
  execution record only: the record of every other library is exactly as it was, and
  the record of the library itself, if it had one, is cleared and set to approved.
\<close>

theorem alwaysAllow_clears_only_confirmed_library:
  assumes "libraryPath ps \<notin> disabledLibraries s"
    and "eslintExecutionState s (libraryPath ps) = None"
    and "eslintAlwaysAllowExecutionState s"
  shows "(\<forall>k. k \<noteq> libraryPath ps \<longrightarrow>
            map_of (libraryPath2ExecutionInfo (snd (ConfirmExecution e ps s))) k =
            map_of (libraryPath2ExecutionInfo s) k)
         \<and> (\<forall>info. map_of (libraryPath2ExecutionInfo s) (libraryPath ps) = Some info \<longrightarrow>
              map_of (libraryPath2ExecutionInfo (snd (ConfirmExecution e ps s))) (libraryPath ps) =
              Some ((clearInfo info)\<lparr>result := approved\<rparr>))"
proof (intro conjI allI impI)
  fix k assume "k \<noteq> libraryPath ps"
  then show "map_of (libraryPath2ExecutionInfo (snd (ConfirmExecution e ps s))) k =
            map_of (libraryPath2ExecutionInfo s) k"
    by (simp add: snd_ConfirmExecution infos_confirmBody_other)
next
  fix info assume t: "map_of (libraryPath2ExecutionInfo s) (libraryPath ps) = Some info"
  let ?s2 = "snd (decide ps (s\<lparr>sessionState :=
             map_set (libraryPath ps) (ExecutionParams.truncate ps) (sessionState s)\<rparr>))"
  have "libraryPath2ExecutionInfo ?s2 = libraryPath2ExecutionInfo (snd (decide ps s))"
    by (rule infos_decide_session)
  also have "snd (decide ps s) = clearDiagnosticState ps s"
    using assms by (simp add: snd_decide)
  finally have "map_of (libraryPath2ExecutionInfo ?s2) (libraryPath ps) = Some (clearInfo info)"
    using t by (simp add: infos_clearDiagnosticState)
  moreover have "fst (decide ps s) = approved"
    using assms by (simp add: fst_decide)
  ultimately show "map_of (libraryPath2ExecutionInfo (snd (ConfirmExecution e ps s))) (libraryPath ps) =
              Some ((clearInfo info)\<lparr>result := approved\<rparr>)"
    by (simp add: snd_ConfirmExecution infos_confirmBody infos_trackExecutionInfo_tracked)
qed

lemma ex_libs_differ: "ex_libB \<noteq> ex_libA"
  by (simp add: ex_libA_def ex_libB_def)

theorem alwaysAllow_clears_only_confirmed_library_witness:
  "map_of (libraryPath2ExecutionInfo (snd (ConfirmExecution ex_host ex_requestA ex_two_pending))) ex_libB
     = Some ex_infoB
   \<and> map_option diagnostics (map_of (libraryPath2ExecutionInfo (snd (ConfirmExecution ex_host ex_requestA ex_two_pending))) ex_libA)
     = Some []"
proof -
  have h1: "libraryPath ex_requestA \<notin> disabledLibraries ex_two_pending"
    by (simp add: ex_two_pending_def ex_initial_def)
  have h2: "eslintExecutionState ex_two_pending (libraryPath ex_requestA) = None"
    by (simp add: ex_two_pending_def ex_initial_def)
  have h3: "eslintAlwaysAllowExecutionState ex_two_pending"
    by (simp add: ex_two_pending_def)
  have a: "libraryPath ex_requestA = ex_libA"
    by (simp add: ex_requestA_def)
  have b: "map_of (libraryPath2ExecutionInfo ex_two_pending) ex_libA = Some ex_infoA"
    by (simp add: ex_two_pending_def)
  have c: "map_of (libraryPath2ExecutionInfo ex_two_pending) ex_libB = Some ex_infoB"
    using ex_libs_differ by (simp add: ex_two_pending_def)
  show ?thesis
    using alwaysAllow_clears_only_confirmed_library [OF h1 h2 h3, of ex_host] ex_libs_differ
    by (simp add: a b c clearInfo_def)
qed

text \<open>The claim as it was stated fails with two tracked libraries: after the call for
  library A, resolved through always-allow, library B still has its pending-confirmation
  diagnostic.\<close>

theorem alwaysAllow_keeps_other_diagnostics_counterexample:
  "libraryPath ex_requestA \<notin> disabledLibraries ex_two_pending
   \<and> eslintExecutionState ex_two_pending (libraryPath ex_requestA) = None
   \<and> eslintAlwaysAllowExecutionState ex_two_pending
   \<and> map_option diagnostics
       (map_of (libraryPath2ExecutionInfo (snd (ConfirmExecution ex_host ex_requestA ex_two_pending)))
          ex_libB)
     = Some [(''file:///ws/pkg/b.js'', [''not approved or denied yet''])]"
proof -
  have "ex_libB \<noteq> libraryPath ex_requestA"
    by (simp add: ex_requestA_def ex_libs_differ)
  then have "map_of (libraryPath2ExecutionInfo (snd (ConfirmExecution ex_host ex_requestA ex_two_pending))) ex_libB
     = map_of (libraryPath2ExecutionInfo ex_two_pending) ex_libB"
    by (simp add: snd_ConfirmExecution infos_confirmBody_other)
  also have "\<dots> = Some ex_infoB"
    using ex_libs_differ by (simp add: ex_two_pending_def)
  finally show ?thesis
    by (simp add: ex_infoB_def ex_two_pending_def ex_initial_def)
qed

section \<open>The interactive confirmation\<close>

text \<open>
  C8, as amended. When the dialog is dismissed, the only change is that the library's
  parameters are recorded in the session map (line 512, before the dialog is shown):
  the stored decisions, always-allow, the disabled set, the execution records, the
  resource statuses and the diagnostics are exactly as before.
\<close>

theorem askForLibraryConfirmation_dismissed:
  "snd (askForLibraryConfirmation e client ps update None s) =
     s\<lparr>sessionState := map_set (libraryPath ps) ps (sessionState s)\<rparr>"
  by (simp add: askForLibraryConfirmation_def Let_def split: sum.splits)

text \<open>The claim as it was stated fails for a library not asked for before: the session
  map was empty and holds the library after the dismissed dialog.\<close>

theorem askForLibraryConfirmation_dismissed_counterexample:
  "sessionState ex_initial = []
   \<and> sessionState (snd (askForLibraryConfirmation ex_host True ex_paramsA True None ex_initial))
     = [(ex_libA, ex_paramsA)]"
  by (simp add: askForLibraryConfirmation_def Let_def ex_host_def ex_initial_def ex_paramsA_def)


















section \<open>Resetting the decisions\<close>

lemma foldl_delete:
  "foldl (\<lambda>libs lib. libs(lib := None)) m ks = m |` (- set ks)"
proof (induction ks arbitrary: m)
  case Nil
  show ?case by simp
next
  case (Cons k ks)
  have "foldl (\<lambda>libs lib. libs(lib := None)) m (k # ks) =
        foldl (\<lambda>libs lib. libs(lib := None)) (m(k := None)) ks"
    by simp
  also have "\<dots> = m(k := None) |` (- set ks)"
    by (rule Cons.IH)
  also have "\<dots> = m |` (- set (k # ks))"
    by (auto simp add: restrict_map_def fun_eq_iff)
  finally show ?case .
qed

lemma finishReset_clears:
  "disabledLibraries (finishReset client update s) = {}"
  "libraryPath2ExecutionInfo (finishReset client update s) = []"
  "resource2ResourceInfo (finishReset client update s) = Map.empty"
  "workspaceFolder2ExecutionInfos (finishReset client update s) = Map.empty"
  "statusChanged (finishReset client update s) = statusChanged s + (if update then 1 else 0)"
  "eslintExecutionState (finishReset client update s) = eslintExecutionState s"
  "eslintAlwaysAllowExecutionState (finishReset client update s) = eslintAlwaysAllowExecutionState s"
  by (simp_all add: finishReset_def signalChange_def Let_def)

lemma resetItems_kinds:
  "0 \<le> i \<Longrightarrow> i < int (length (resetItems s)) \<Longrightarrow>
     resetItems s ! nat i \<in> {kind_session, kind_alwaysAllow, kind_all}"
proof -
  assume a: "0 \<le> i" "i < int (length (resetItems s))"
  then have "nat i < length (resetItems s)" by simp
  then have "resetItems s ! nat i \<in> set (resetItems s)" by (rule nth_mem)
  then show ?thesis by (auto simp add: resetItems_def split: if_splits)
qed

text \<open>
  C9, as amended. For the modes all and alwaysAllow, and for the mode session unless
  exactly one library was asked for in this session, the reset makes its mode-specific
  change (all: no stored decision and always-allow off; alwaysAllow: always-allow off;
  session: the stored decisions of the session's libraries removed), then empties the
  disabled set, the execution records, the resource statuses and the folder index, and
  then calls the status-changed callback once if the caller supplied one. The mode
  session with exactly one library does instead exactly what the interactive
  confirmation for that library does, and none of this clearing of its own.
\<close>

theorem reset_clears:
  assumes "0 \<le> selectedIdx" and "selectedIdx < int (length (resetItems s))"
  shows "(resetItems s ! nat selectedIdx = kind_session \<and> length (sessionState s) = 1 \<longrightarrow>
            resetLibraryConfirmations e client update selectedIdx item s =
              askForLibraryConfirmation e client (snd (hd (sessionState s))) update item s)
    \<and> (\<not> (resetItems s ! nat selectedIdx = kind_session \<and> length (sessionState s) = 1) \<longrightarrow>
        fst (resetLibraryConfirmations e client update selectedIdx item s) = Inr ()
      \<and> eslintExecutionState (snd (resetLibraryConfirmations e client update selectedIdx item s)) =
          (case resetItems s ! nat selectedIdx of
             kind_all \<Rightarrow> Map.empty
           | kind_session \<Rightarrow> eslintExecutionState s |` (- fst ` set (sessionState s))
           | _ \<Rightarrow> eslintExecutionState s)
      \<and> eslintAlwaysAllowExecutionState
          (snd (resetLibraryConfirmations e client update selectedIdx item s)) =
          (resetItems s ! nat selectedIdx = kind_session \<and> eslintAlwaysAllowExecutionState s)
      \<and> disabledLibraries (snd (resetLibraryConfirmations e client update selectedIdx item s)) = {}
      \<and> libraryPath2ExecutionInfo
          (snd (resetLibraryConfirmations e client update selectedIdx item s)) = []
      \<and> resource2ResourceInfo
          (snd (resetLibraryConfirmations e client update selectedIdx item s)) = Map.empty
      \<and> workspaceFolder2ExecutionInfos
          (snd (resetLibraryConfirmations e client update selectedIdx item s)) = Map.empty
      \<and> statusChanged (snd (resetLibraryConfirmations e client update selectedIdx item s)) =
          statusChanged s + (if update then 1 else 0))"
proof -
  have n: "selectedIdx \<noteq> - 1"
    "\<not> (selectedIdx < 0 \<or> int (length (resetItems s)) \<le> selectedIdx)"
    using assms by simp_all
  have redirect: "resetLibraryConfirmations e client update selectedIdx item s =
      askForLibraryConfirmation e client (snd (hd (sessionState s))) update item s"
    if "resetItems s ! nat selectedIdx = kind_session \<and> length (sessionState s) = 1"
    using n that by (simp add: resetLibraryConfirmations_def Let_def)
  have clears: "fst (resetLibraryConfirmations e client update selectedIdx item s) = Inr ()
      \<and> eslintExecutionState (snd (resetLibraryConfirmations e client update selectedIdx item s)) =
          (case resetItems s ! nat selectedIdx of
             kind_all \<Rightarrow> Map.empty
           | kind_session \<Rightarrow> eslintExecutionState s |` (- fst ` set (sessionState s))
           | _ \<Rightarrow> eslintExecutionState s)
      \<and> eslintAlwaysAllowExecutionState
          (snd (resetLibraryConfirmations e client update selectedIdx item s)) =
          (resetItems s ! nat selectedIdx = kind_session \<and> eslintAlwaysAllowExecutionState s)
      \<and> disabledLibraries (snd (resetLibraryConfirmations e client update selectedIdx item s)) = {}
      \<and> libraryPath2ExecutionInfo
          (snd (resetLibraryConfirmations e client update selectedIdx item s)) = []
      \<and> resource2ResourceInfo
          (snd (resetLibraryConfirmations e client update selectedIdx item s)) = Map.empty
      \<and> workspaceFolder2ExecutionInfos
          (snd (resetLibraryConfirmations e client update selectedIdx item s)) = Map.empty
      \<and> statusChanged (snd (resetLibraryConfirmations e client update selectedIdx item s)) =
          statusChanged s + (if update then 1 else 0)"
    if a: "\<not> (resetItems s ! nat selectedIdx = kind_session \<and> length (sessionState s) = 1)"
  proof -
    from resetItems_kinds [OF assms]
    consider "resetItems s ! nat selectedIdx = kind_all"
      | "resetItems s ! nat selectedIdx = kind_alwaysAllow"
      | "resetItems s ! nat selectedIdx = kind_session" "length (sessionState s) \<noteq> 1"
      using a by auto
    then show ?thesis
    proof cases
      case 1
      with n show ?thesis
        by (simp add: resetLibraryConfirmations_def Let_def finishReset_clears)
    next
      case 2
      with n show ?thesis
        by (simp add: resetLibraryConfirmations_def Let_def finishReset_clears)
    next
      case 3
      with n show ?thesis
        by (simp add: resetLibraryConfirmations_def Let_def finishReset_clears foldl_delete)
    qed
  qed
  from redirect clears show ?thesis by blast
qed

theorem reset_clears_witness:
  "libraryPath2ExecutionInfo
     (snd (resetLibraryConfirmations ex_host True True 2 None ex_two_pending)) = []
   \<and> \<not> eslintAlwaysAllowExecutionState
         (snd (resetLibraryConfirmations ex_host True True 2 None ex_two_pending))
   \<and> statusChanged (snd (resetLibraryConfirmations ex_host True True 2 None ex_two_pending)) = 1
   \<and> libraryPath2ExecutionInfo
       (snd (resetLibraryConfirmations ex_host True True 0 None ex_two_pending)) = []
   \<and> resetLibraryConfirmations ex_host True True 0 (Some alwaysAllow) ex_one_session =
       askForLibraryConfirmation ex_host True ex_paramsA True (Some alwaysAllow) ex_one_session"
proof -
  have i: "resetItems ex_two_pending = [kind_session, kind_alwaysAllow, kind_all]"
    by (simp add: resetItems_def ex_two_pending_def)
  have i1: "resetItems ex_one_session = [kind_session, kind_all]"
    by (simp add: resetItems_def ex_one_session_def ex_initial_def)
  have h1: "(0::int) \<le> 2" "(0::int) \<le> 0" by simp_all
  have h2: "2 < int (length (resetItems ex_two_pending))"
    "0 < int (length (resetItems ex_two_pending))"
    "0 < int (length (resetItems ex_one_session))"
    by (simp_all add: i i1)
  have h3: "\<not> (resetItems ex_two_pending ! nat 2 = kind_session
                 \<and> length (sessionState ex_two_pending) = 1)"
    by (simp add: i)
  have h4: "\<not> (resetItems ex_two_pending ! nat 0 = kind_session
                 \<and> length (sessionState ex_two_pending) = 1)"
    by (simp add: ex_two_pending_def)
  have "resetItems ex_one_session ! nat 0 = kind_session"
    by (simp add: i1)
  moreover have "length (sessionState ex_one_session) = 1"
    by (simp add: ex_one_session_def)
  ultimately have h5: "resetItems ex_one_session ! nat 0 = kind_session
            \<and> length (sessionState ex_one_session) = 1"
    by simp
  have p: "snd (hd (sessionState ex_one_session)) = ex_paramsA"
    by (simp add: ex_one_session_def)
  have c: "statusChanged ex_two_pending = 0"
    by (simp add: ex_two_pending_def ex_initial_def)
  have a: "libraryPath2ExecutionInfo
             (snd (resetLibraryConfirmations ex_host True True 2 None ex_two_pending)) = []
           \<and> \<not> eslintAlwaysAllowExecutionState
                 (snd (resetLibraryConfirmations ex_host True True 2 None ex_two_pending))
           \<and> statusChanged
               (snd (resetLibraryConfirmations ex_host True True 2 None ex_two_pending)) = 1"
    using reset_clears [OF h1(1) h2(1), of ex_host True True None] h3
    by (simp add: i c)
  have b: "libraryPath2ExecutionInfo
             (snd (resetLibraryConfirmations ex_host True True 0 None ex_two_pending)) = []"
    using reset_clears [OF h1(2) h2(2), of ex_host True True None] h4
    by simp
  have r: "resetLibraryConfirmations ex_host True True 0 (Some alwaysAllow) ex_one_session =
       askForLibraryConfirmation ex_host True ex_paramsA True (Some alwaysAllow) ex_one_session"
    using reset_clears [OF h1(2) h2(3), of ex_host True True "Some alwaysAllow"] h5
    by (simp add: p)
  from a b r show ?thesis by simp
qed

text \<open>The claim as it was stated fails for the mode session with one library in the
  session map: the execution record is still there and no status change is signalled.\<close>

theorem reset_session_single_counterexample:
  "resetItems ex_one_session ! nat 0 = kind_session
   \<and> libraryPath2ExecutionInfo
       (snd (resetLibraryConfirmations ex_host True True 0 None ex_one_session))
     = [(ex_libA, ex_infoA)]
   \<and> statusChanged (snd (resetLibraryConfirmations ex_host True True 0 None ex_one_session)) = 0"
  by (simp add: resetLibraryConfirmations_def resetItems_def Let_def ex_one_session_def
      ex_initial_def askForLibraryConfirmation_def ex_host_def)

section \<open>The status of the focused resource\<close>

lemma scanCandidates_seeded:
  "scanCandidates (Some running) candidates = Some (specScan running (map result candidates))"
proof (induction candidates arbitrary: running)
  case Nil
  show ?case by simp
next
  case (Cons info candidates)
  show ?case
    by (cases "result info") (simp_all add: Cons.IH)
qed

lemma toStatus_specScan:
  "specStatus (first # later) = toStatus (specScan first later)"
  by (cases "specScan first later") simp_all

lemma reduceCandidates_specStatus:
  "reduceCandidates candidates = (specStatus (map result candidates), False)"
proof (cases candidates)
  case Nil
  then show ?thesis by (simp add: reduceCandidates_def)
next
  case (Cons info rest)
  then show ?thesis
    by (simp add: reduceCandidates_def scanCandidates_seeded toStatus_specScan del: specStatus.simps)
qed

lemma specScan_closed_form:
  "specScan running later =
     (if confirmationPending \<in> set later then confirmationPending
      else case filter (\<lambda>r. r = denied \<or> r = disabled) later of
             [] \<Rightarrow> running
           | r # rs \<Rightarrow> last (r # rs))"
proof (induction later arbitrary: running)
  case Nil
  show ?case by simp
next
  case (Cons r later)
  show ?case
    by (cases r) (auto simp add: Cons.IH split: list.splits)
qed

text \<open>
  C4. When there is no focused document, or the focused document has no resource info
  of its own, the status is the one the specification's precedence gives for the
  candidate records in their order: the records that the list of the document's
  workspace folder refers to, if the folder has a list, otherwise all tracked records
  in insertion order; and the status is marked as not directly known.
\<close>

theorem findApplicableStatus_precedence:
  assumes "case editor of
             None \<Rightarrow> True
           | Some u \<Rightarrow> resource2ResourceInfo s u = None \<and> getWorkspaceFolder e u = Inr folder"
  shows "findApplicableStatus e editor s =
           Inr (specStatus
                  (map result
                     (case editor of
                        None \<Rightarrow> map snd (libraryPath2ExecutionInfo s)
                      | Some u \<Rightarrow>
                          (case folder of
                             None \<Rightarrow> map snd (libraryPath2ExecutionInfo s)
                           | Some f \<Rightarrow>
                               (case workspaceFolder2ExecutionInfos s f of
                                  None \<Rightarrow> map snd (libraryPath2ExecutionInfo s)
                                | Some refs \<Rightarrow>
                                    List.map_filter
                                      (map_of (libraryPath2ExecutionInfo s)) refs)))),
                False)"
proof (cases editor)
  case None
  then show ?thesis
    by (simp add: findApplicableStatus_def reduceCandidates_specStatus allExecutionInfos_def)
next
  case (Some u)
  with assms have r: "resource2ResourceInfo s u = None"
    and g: "getWorkspaceFolder e u = Inr folder"
    by simp_all
  show ?thesis
  proof (cases folder)
    case None
    with Some r g show ?thesis
      by (simp add: findApplicableStatus_def reduceCandidates_specStatus
          allExecutionInfos_def)
  next
    case f: (Some f)
    show ?thesis
    proof (cases "workspaceFolder2ExecutionInfos s f")
      case None
      with Some f r g show ?thesis
        by (simp add: findApplicableStatus_def reduceCandidates_specStatus
            allExecutionInfos_def)
    next
      case refs: (Some refs)
      with Some f r g show ?thesis
        by (simp add: findApplicableStatus_def reduceCandidates_specStatus deref_def)
    qed
  qed
qed

theorem findApplicableStatus_precedence_witness:
  "findApplicableStatus ex_host (Some ''file:///ws/c.js'') ex_approved_then_denied =
     Inr (Status_ok, False)
   \<and> findApplicableStatus ex_host (Some ''file:///ws/c.js'')
       (ex_approved_then_denied\<lparr>workspaceFolder2ExecutionInfos := Map.empty\<rparr>) =
     Inr (Status_executionDenied, False)"
proof -
  let ?s = "ex_approved_then_denied\<lparr>workspaceFolder2ExecutionInfos := Map.empty\<rparr>"
  have h1: "case Some ''file:///ws/c.js'' of
              None \<Rightarrow> True
            | Some u \<Rightarrow> resource2ResourceInfo ex_approved_then_denied u = None
                \<and> getWorkspaceFolder ex_host u = Inr (Some ''file:///ws'')"
    by (simp add: ex_approved_then_denied_def ex_initial_def ex_host_def)
  have h2: "case Some ''file:///ws/c.js'' of
              None \<Rightarrow> True
            | Some u \<Rightarrow> resource2ResourceInfo ?s u = None
                \<and> getWorkspaceFolder ex_host u = Inr (Some ''file:///ws'')"
    by (simp add: ex_approved_then_denied_def ex_initial_def ex_host_def)
  have w1: "workspaceFolder2ExecutionInfos ex_approved_then_denied ''file:///ws'' =
              Some [ex_libA]"
    by (simp add: ex_approved_then_denied_def)
  have w2: "workspaceFolder2ExecutionInfos ?s ''file:///ws'' = None"
    by simp
  have d1: "map_of (libraryPath2ExecutionInfo ex_approved_then_denied) ex_libA =
              Some (ex_infoA\<lparr>result := approved\<rparr>)"
    by (simp add: ex_approved_then_denied_def)
  have d2: "map result (map snd (libraryPath2ExecutionInfo ?s)) = [approved, denied]"
    by (simp add: ex_approved_then_denied_def)
  have a: "findApplicableStatus ex_host (Some ''file:///ws/c.js'') ex_approved_then_denied =
             Inr (Status_ok, False)"
    using findApplicableStatus_precedence [OF h1] by (simp add: w1 d1)
  have b: "findApplicableStatus ex_host (Some ''file:///ws/c.js'') ?s =
             Inr (Status_executionDenied, False)"
    using findApplicableStatus_precedence [OF h2] by (simp only: w2 d2 option.case) simp
  from a b show ?thesis by simp
qed

section \<open>The working directory of a document\<close>

lemma workingDirectoryLoop_append:
  "workingDirectoryLoop pe fp ws acc (es @ es') =
     workingDirectoryLoop pe fp ws (workingDirectoryLoop pe fp ws acc es) es'"
  by (induction es arbitrary: acc) simp_all

lemma candidatesOf_Cons:
  "candidatesOf pe fp ws (entry # entries) =
     (case itemValue pe fp ws entry of
        None \<Rightarrow> candidatesOf pe fp ws entries
      | Some v \<Rightarrow> (v, snd (snd (entryFields entry))) # candidatesOf pe fp ws entries)"
  by (simp add: candidatesOf_def split: option.splits)

lemma candidatesOf_Nil: "candidatesOf pe fp ws [] = []"
  by (simp add: candidatesOf_def)

lemma candidatesOf_append:
  "candidatesOf pe fp ws (es @ es') = candidatesOf pe fp ws es @ candidatesOf pe fp ws es'"
  by (induction es) (simp_all add: candidatesOf_Nil candidatesOf_Cons split: option.splits)

text \<open>Rules without a candidate leave no directory behind.\<close>

lemma loop_without_candidates:
  assumes "candidatesOf pe fp ws es = []"
    and "\<forall>d c. acc \<noteq> Some (WD_DirectoryItem d c)"
  shows "\<forall>d c. workingDirectoryLoop pe fp ws acc es \<noteq> Some (WD_DirectoryItem d c)"
  using assms
proof (induction es arbitrary: acc)
  case Nil
  then show ?case by simp
next
  case (Cons entry es)
  from Cons.prems(1) have n: "itemValue pe fp ws entry = None"
    and r: "candidatesOf pe fp ws es = []"
    by (simp_all add: candidatesOf_Cons split: option.splits)
  have "\<forall>d c. workingDirectoryStep pe fp ws acc entry \<noteq> Some (WD_DirectoryItem d c)"
    using Cons.prems(2) n by (cases entry) (simp_all add: workingDirectoryStep_def)
  from Cons.IH [OF r this] show ?case by simp
qed

text \<open>Over rules without a mode item, the loop is a fold of \<open>keepCandidate\<close> over the
  candidates.\<close>

lemma loop_without_modes:
  assumes "\<forall>m. ModeItem m \<notin> set es"
  shows "workingDirectoryLoop pe fp ws acc es =
           foldl (\<lambda>wd (v, c). keepCandidate wd v c) acc (candidatesOf pe fp ws es)"
  using assms
proof (induction es arbitrary: acc)
  case Nil
  show ?case by (simp add: candidatesOf_Nil)
next
  case (Cons entry es)
  from Cons.prems have m: "\<forall>m. entry \<noteq> ModeItem m" and r: "\<forall>m. ModeItem m \<notin> set es"
    by auto
  from m have "workingDirectoryStep pe fp ws acc entry =
      (case itemValue pe fp ws entry of
         None \<Rightarrow> acc
       | Some v \<Rightarrow> keepCandidate acc v (snd (snd (entryFields entry))))"
    by (cases entry) (auto simp add: workingDirectoryStep_def)
  then show ?case
    by (simp add: Cons.IH [OF r] candidatesOf_Cons split: option.splits)
qed

lemma keepCandidate_simps:
  "keepCandidate None v c = Some (WD_DirectoryItem v c)"
  "keepCandidate (Some (WD_ModeItem m)) v c = Some (WD_DirectoryItem v c)"
  "keepCandidate (Some (WD_DirectoryItem d b)) v c =
     (if length d < length v then Some (WD_DirectoryItem v c)
      else Some (WD_DirectoryItem d b))"
  by (simp_all add: keepCandidate_def)

lemma keepCandidate_shorter:
  assumes v: "length v < n"
    and acc: "\<forall>d c. acc = Some (WD_DirectoryItem d c) \<longrightarrow> length d < n"
  shows "\<forall>d' c'. keepCandidate acc v c = Some (WD_DirectoryItem d' c') \<longrightarrow> length d' < n"
proof (cases acc)
  case None
  with v show ?thesis by (simp add: keepCandidate_simps)
next
  case (Some wd)
  show ?thesis
  proof (cases wd)
    case (WD_ModeItem m)
    with Some v show ?thesis by (simp add: keepCandidate_simps)
  next
    case (WD_DirectoryItem d b)
    with Some acc have "length d < n" by simp
    with Some WD_DirectoryItem v show ?thesis by (simp add: keepCandidate_simps)
  qed
qed

lemma fold_shorter:
  assumes "\<forall>x\<in>set xs. length (fst x) < n"
    and "\<forall>d c. acc = Some (WD_DirectoryItem d c) \<longrightarrow> length d < n"
  shows "\<forall>d c. foldl (\<lambda>wd (v, c). keepCandidate wd v c) acc xs = Some (WD_DirectoryItem d c)
           \<longrightarrow> length d < n"
  using assms
proof (induction xs arbitrary: acc)
  case Nil
  then show ?case by simp
next
  case (Cons x xs)
  obtain v c where x: "x = (v, c)" by (cases x)
  from Cons.prems(1) x have v: "length v < n" by simp
  from Cons.prems(1) have r: "\<forall>x\<in>set xs. length (fst x) < n" by simp
  have "foldl (\<lambda>wd (v, c). keepCandidate wd v c) acc (x # xs) =
        foldl (\<lambda>wd (v, c). keepCandidate wd v c) (keepCandidate acc v c) xs"
    by (simp add: x)
  with Cons.IH [OF r keepCandidate_shorter [OF v Cons.prems(2)]] show ?case
    by presburger
qed

lemma fold_not_longer:
  assumes "\<forall>y\<in>set ys. length (fst y) \<le> length d"
  shows "foldl (\<lambda>wd (v, c). keepCandidate wd v c) (Some (WD_DirectoryItem d c)) ys =
           Some (WD_DirectoryItem d c)"
  using assms
proof (induction ys)
  case Nil
  show ?case by simp
next
  case (Cons y ys)
  obtain v c' where y: "y = (v, c')" by (cases y)
  from Cons.prems y have "\<not> length d < length v" by simp
  then have k: "keepCandidate (Some (WD_DirectoryItem d c)) v c' = Some (WD_DirectoryItem d c)"
    by (simp add: keepCandidate_simps)
  from Cons.prems have "\<forall>y\<in>set ys. length (fst y) \<le> length d" by simp
  from Cons.IH [OF this] show ?case by (simp add: y k)
qed

lemma keepCandidate_longer:
  assumes "\<forall>d' c'. acc = Some (WD_DirectoryItem d' c') \<longrightarrow> length d' < length d"
  shows "keepCandidate acc d c = Some (WD_DirectoryItem d c)"
proof (cases acc)
  case None
  then show ?thesis by (simp add: keepCandidate_simps)
next
  case (Some wd)
  show ?thesis
  proof (cases wd)
    case (WD_ModeItem m)
    with Some show ?thesis by (simp add: keepCandidate_simps)
  next
    case (WD_DirectoryItem d' b)
    with Some assms have "length d' < length d" by simp
    with Some WD_DirectoryItem show ?thesis by (simp add: keepCandidate_simps)
  qed
qed

lemma first_longest_exists:
  fixes cs :: "(string \<times> bool) list"
  assumes "cs \<noteq> []"
  shows "\<exists>xs d c ys. cs = xs @ (d, c) # ys
           \<and> (\<forall>x\<in>set xs. length (fst x) < length d)
           \<and> (\<forall>y\<in>set ys. length (fst y) \<le> length d)"
  using assms
proof (induction cs)
  case Nil
  then show ?case by simp
next
  case (Cons a cs)
  obtain v b where a: "a = (v, b)" by (cases a)
  show ?case
  proof (cases "cs = []")
    case True
    then have "a # cs = [] @ (v, b) # []" by (simp add: a)
    moreover have "\<forall>x\<in>set ([] :: (string \<times> bool) list). length (fst x) < length v" by simp
    moreover have "\<forall>y\<in>set ([] :: (string \<times> bool) list). length (fst y) \<le> length v" by simp
    ultimately show ?thesis by blast
  next
    case False
    from Cons.IH [OF this] obtain xs d c ys where
      cs: "cs = xs @ (d, c) # ys"
      and xs: "\<forall>x\<in>set xs. length (fst x) < length d"
      and ys: "\<forall>y\<in>set ys. length (fst y) \<le> length d"
      by blast
    show ?thesis
    proof (cases "length v < length d")
      case True
      have "a # cs = (a # xs) @ (d, c) # ys" by (simp add: cs)
      moreover have "\<forall>x\<in>set (a # xs). length (fst x) < length d"
        using xs True by (simp add: a)
      ultimately show ?thesis using ys by blast
    next
      case False
      have "a # cs = [] @ (v, b) # cs" by (simp add: a)
      moreover have "\<forall>x\<in>set ([] :: (string \<times> bool) list). length (fst x) < length v" by simp
      moreover have "\<forall>y\<in>set cs. length (fst y) \<le> length v"
      proof
        fix y assume "y \<in> set cs"
        then consider "y \<in> set xs" | "y = (d, c)" | "y \<in> set ys"
          by (auto simp add: cs)
        then show "length (fst y) \<le> length v"
        proof cases
          case 1
          with xs have "length (fst y) < length d" by simp
          with False show ?thesis by simp
        next
          case 2
          with False show ?thesis by simp
        next
          case 3
          with ys have "length (fst y) \<le> length d" by simp
          with False show ?thesis by simp
        qed
      qed
      ultimately show ?thesis by blast
    qed
  qed
qed

text \<open>
  C5, as amended. For a rule list in which no mode item follows a rule that produced a
  candidate, the resolver keeps, among all candidates, the one with the longest string,
  and of several candidates of that length the earliest: a later candidate replaces the
  kept one only if it is strictly longer. (What a mode item after a candidate does is
  left out here; see C6.)
\<close>

theorem resolveWorkingDirectory_first_longest:
  assumes "workingDirectories = pre @ post"
    and "candidatesOf pe fp ws pre = []"
    and "\<forall>m. ModeItem m \<notin> set post"
    and "candidatesOf pe fp ws workingDirectories = xs @ (d, c) # ys"
    and "\<forall>x\<in>set xs. length (fst x) < length d"
    and "\<forall>y\<in>set ys. length (fst y) \<le> length d"
  shows "resolveWorkingDirectory pe fp ws workingDirectories = Some (WD_DirectoryItem d c)"
proof -
  let ?k = "\<lambda>wd (v, c). keepCandidate wd v c"
  let ?acc = "workingDirectoryLoop pe fp ws None pre"
  have acc: "\<forall>d c. ?acc \<noteq> Some (WD_DirectoryItem d c)"
    by (rule loop_without_candidates [OF assms(2)]) simp
  have cs: "candidatesOf pe fp ws post = xs @ (d, c) # ys"
    using assms(1,2,4) by (simp add: candidatesOf_append)
  have "resolveWorkingDirectory pe fp ws workingDirectories =
          workingDirectoryLoop pe fp ws ?acc post"
    by (simp add: resolveWorkingDirectory_def assms(1) workingDirectoryLoop_append)
  also have "\<dots> = foldl ?k ?acc (xs @ (d, c) # ys)"
    by (simp add: loop_without_modes [OF assms(3)] cs)
  also have "\<dots> = foldl ?k (keepCandidate (foldl ?k ?acc xs) d c) ys"
    by simp
  also have "keepCandidate (foldl ?k ?acc xs) d c = Some (WD_DirectoryItem d c)"
  proof (rule keepCandidate_longer)
    show "\<forall>d' c'. foldl ?k ?acc xs = Some (WD_DirectoryItem d' c') \<longrightarrow> length d' < length d"
      by (rule fold_shorter [OF assms(5)]) (simp add: acc)
  qed
  also have "foldl ?k (Some (WD_DirectoryItem d c)) ys = Some (WD_DirectoryItem d c)"
    by (rule fold_not_longer [OF assms(6)])
  finally show ?thesis .
qed

lemma ex_nested_candidates:
  "candidatesOf ex_posix (Some ''/proj/a/b/file.js'') None ex_nested_rules =
     [(''/proj/a/'', False), (''/proj/a/b/'', True)]"
  by (simp add: candidatesOf_Cons candidatesOf_Nil itemValue_def directoryItemValue_def
      ex_nested_rules_def ex_posix_def)

theorem resolveWorkingDirectory_first_longest_witness:
  "resolveWorkingDirectory ex_posix (Some ''/proj/a/b/file.js'') None ex_nested_rules =
     Some (WD_DirectoryItem ''/proj/a/b/'' True)"
proof -
  have h1: "ex_nested_rules = [] @ ex_nested_rules" by simp
  have h2: "candidatesOf ex_posix (Some ''/proj/a/b/file.js'') None [] = []"
    by (rule candidatesOf_Nil)
  have h3: "\<forall>m. ModeItem m \<notin> set ex_nested_rules"
    by (simp add: ex_nested_rules_def)
  have h4: "candidatesOf ex_posix (Some ''/proj/a/b/file.js'') None ex_nested_rules =
     [(''/proj/a/'', False)] @ (''/proj/a/b/'', True) # []"
    by (simp add: ex_nested_candidates)
  have h5: "\<forall>x\<in>set [(''/proj/a/'', False)]. length (fst x) < length ''/proj/a/b/''"
    by simp
  have h6: "\<forall>y\<in>set ([] :: (string \<times> bool) list). length (fst y) \<le> length ''/proj/a/b/''"
    by simp
  show ?thesis
    by (rule resolveWorkingDirectory_first_longest [OF h1 h2 h3 h4 h5 h6])
qed

text \<open>The claim as it was stated fails for two rules whose candidates have the same
  length: the earlier rule's \<^verbatim>\<open>'!cwd'\<close> is kept, the later rule does not override it.\<close>

theorem resolveWorkingDirectory_tie_counterexample:
  "candidatesOf ex_posix (Some ''/proj/a/file.js'') None ex_tied_rules =
     [(''/proj/a/'', False), (''/proj/a/'', True)]
   \<and> resolveWorkingDirectory ex_posix (Some ''/proj/a/file.js'') None ex_tied_rules =
     Some (WD_DirectoryItem ''/proj/a/'' False)"
  by (simp add: candidatesOf_Cons candidatesOf_Nil resolveWorkingDirectory_def
      workingDirectoryStep_def keepCandidate_def itemValue_def directoryItemValue_def
      ex_tied_rules_def ex_posix_def)

text \<open>
  C6. The claim does not hold of the code: a mode item that follows a rule with a
  candidate replaces the candidate (line 1124 assigns without looking at what is held),
  although the same two rules in the other order give the directory (line 1162 lets a
  candidate replace a held mode item). Here the first rule produces the candidate
  \<^verbatim>\<open>/proj/a/\<close> and the result is the mode item.
\<close>

theorem resolveWorkingDirectory_mode_after_directory:
  "candidatesOf ex_posix (Some ''/proj/a/file.js'') None
     [DirectoryItem ''/proj/a/'' None, ModeItem auto] = [(''/proj/a/'', False)]
   \<and> resolveWorkingDirectory ex_posix (Some ''/proj/a/file.js'') None
       [DirectoryItem ''/proj/a/'' None, ModeItem auto] = Some (WD_ModeItem auto)
   \<and> resolveWorkingDirectory ex_posix (Some ''/proj/a/file.js'') None
       [ModeItem auto, DirectoryItem ''/proj/a/'' None] = Some (WD_DirectoryItem ''/proj/a/'' False)"
  by (simp add: candidatesOf_Cons candidatesOf_Nil resolveWorkingDirectory_def
      workingDirectoryStep_def keepCandidate_def itemValue_def directoryItemValue_def
      ex_posix_def)

end
